theory Spec2Isabelle
  imports Main
begin

section \<open>JavaScript values\<close>

text \<open>
  The values that model attributes and form controls hold: the JSON-shaped part of
  JavaScript. Numbers are never inspected by the view, so their representation is the
  type parameter \<open>'n\<close>. An object is the list of its own properties; a lookup takes the
  first binding of a name.
\<close>

datatype 'n jsval =
    JUndefined
  | JNull
  | JBool bool
  | JNum 'n
  | JStr string
  | JArr "'n jsval list"
  | JObj "(string \<times> 'n jsval) list"

datatype error = TypeError

text \<open>
  The property read \<open>x.p\<close>. Reading a property of \<open>undefined\<close> or \<open>null\<close> throws a
  TypeError; an object gives the property's value, or \<open>undefined\<close> when it has no such
  property; every other value is read through its prototype. The view reads the names
  \<open>id\<close> and \<open>name\<close> only, which no prototype of a string, number, boolean, array or
  plain object defines, so those reads give \<open>undefined\<close>.
\<close>

fun get_prop :: "'n jsval \<Rightarrow> string \<Rightarrow> error + 'n jsval" where
  "get_prop JUndefined p = Inl TypeError"
| "get_prop JNull p = Inl TypeError"
| "get_prop (JObj kvs) p = Inr (case map_of kvs p of None \<Rightarrow> JUndefined | Some x \<Rightarrow> x)"
| "get_prop (JBool b) p = Inr JUndefined"
| "get_prop (JNum n) p = Inr JUndefined"
| "get_prop (JStr s) p = Inr JUndefined"
| "get_prop (JArr xs) p = Inr JUndefined"

subsection \<open>The Underscore predicates the view calls\<close>

fun isUndefined :: "'n jsval \<Rightarrow> bool" where
  "isUndefined JUndefined = True"
| "isUndefined _ = False"

fun isNull :: "'n jsval \<Rightarrow> bool" where
  "isNull JNull = True"
| "isNull _ = False"

fun isString :: "'n jsval \<Rightarrow> bool" where
  "isString (JStr s) = True"
| "isString _ = False"

text \<open>
  \<open>_.isEmpty\<close>: true of \<open>null\<close> and \<open>undefined\<close>; of a string or an array when its
  length is 0; of anything else when it has no enumerable own property, which is so for
  every number and boolean.
\<close>

fun isEmpty :: "'n jsval \<Rightarrow> bool" where
  "isEmpty JUndefined = True"
| "isEmpty JNull = True"
| "isEmpty (JStr s) = (length s = 0)"
| "isEmpty (JArr xs) = (length xs = 0)"
| "isEmpty (JObj kvs) = (length kvs = 0)"
| "isEmpty (JBool b) = True"
| "isEmpty (JNum n) = True"

text \<open>
  \<open>_.isEqual\<close>, the deep comparison Backbone uses to find the attributes a \<open>set\<close>
  changes: values of different kinds are unequal; arrays are equal when they have the
  same length and equal elements; objects are equal when they have the same number of
  properties and every property of the first is a property of the second with an equal
  value, in whatever order the properties stand. Numbers are compared as they are
  represented (Underscore takes \<open>NaN\<close> as equal to itself and \<open>0\<close> as different from
  \<open>-0\<close>).
\<close>

fun isEqual :: "'n jsval \<Rightarrow> 'n jsval \<Rightarrow> bool" where
  "isEqual JUndefined JUndefined = True"
| "isEqual JNull JNull = True"
| "isEqual (JBool a) (JBool b) = (a = b)"
| "isEqual (JNum a) (JNum b) = (a = b)"
| "isEqual (JStr a) (JStr b) = (a = b)"
| "isEqual (JArr xs) (JArr ys) = list_all2 isEqual xs ys"
| "isEqual (JObj kvs) (JObj kvs') =
     (length kvs = length kvs' \<and>
      list_all (\<lambda>(k, x). case map_of kvs' k of None \<Rightarrow> False | Some y \<Rightarrow> isEqual x y) kvs)"
| "isEqual _ _ = False"

section \<open>The view's state\<close>

text \<open>
  One entry of \<open>voucherTypes\<close>: the object \<open>{value: ..., label: ...}\<close>.
\<close>

record voucher_type =
  vt_value :: string
  vt_label :: string

text \<open>
  A call of \<open>ecommerce.coupons.enterprise_customer_catalogs.fetch(options)\<close>:
  \<open>options.data\<close>, and the \<open>enterpriseCustomer\<close> that the \<open>success\<close> and \<open>error\<close>
  callbacks of the options close over (\<open>self\<close>, the view, is the state the callback
  runs in).
\<close>

record 'n request =
  data :: "(string \<times> 'n jsval) list"
  enterpriseCustomer :: "'n jsval"

text \<open>
  A line of \<open>console.log\<close> is a string concatenation; its operands are kept as they are
  written: a literal, \<open>JSON.stringify(x)\<close>, or a value converted by \<open>+\<close>.
\<close>

datatype 'n log_part = Lit string | Stringify "'n jsval" | Concat "'n jsval"

text \<open>The callbacks that \<open>setupToggleListeners\<close> subscribes, by name.\<close>

datatype handler =
    ToggleCouponTypeField
  | ToggleVoucherTypeField
  | ToggleCodeField
  | ToggleQuantityField
  | FetchEnterpriseCustomerCatalogs

text \<open>
  The state an operation of the view reads and writes:
  \<^item> \<open>model\<close>: the attributes of \<open>this.model\<close>;
  \<^item> \<open>initAttributes\<close>: \<open>this._initAttributes\<close>, the attribute hash the base view
    captured at construction, as the list of its (name, value) in the order a
    \<open>for ... in\<close> visits them;
  \<^item> \<open>voucherTypes\<close>: the view's \<open>voucherTypes\<close> array;
  \<^item> \<open>catalog_disabled\<close>: whether \<open>select[name=enterprise_customer_catalog]\<close> carries
    the \<open>disabled\<close> attribute (the template renders that control);
  \<^item> \<open>customer_option_text\<close>: the text of
    \<open>select[name=enterprise_customer] option:selected\<close>;
  \<^item> \<open>fetches\<close>: the fetches issued on the catalog collection, oldest first;
  \<^item> \<open>console\<close>: the lines written by \<open>console.log\<close>, oldest first;
  \<^item> \<open>listeners\<close>: the subscriptions made with \<open>listenTo\<close> on the model, as
    (event, callback), oldest first. The view subscribes to the events
    \<open>change:<attribute>\<close> only.
\<close>

record 'n view =
  model :: "string \<rightharpoonup> 'n jsval"
  initAttributes :: "(string \<times> 'n jsval) list"
  voucherTypes :: "voucher_type list"
  catalog_disabled :: bool
  customer_option_text :: string
  fetches :: "'n request list"
  console :: "'n log_part list list"
  listeners :: "(string \<times> handler) list"

text \<open>
  Backbone's \<open>model.get(attr)\<close>: the attribute's value, \<open>undefined\<close> when the model has
  no such attribute.
\<close>

definition model_get :: "(string \<rightharpoonup> 'n jsval) \<Rightarrow> string \<Rightarrow> 'n jsval" where
  "model_get m attr = (case m attr of None \<Rightarrow> JUndefined | Some x \<Rightarrow> x)"

text \<open>
  The first loop of Backbone's \<open>model.set(attrs)\<close>, over the attributes of the hash in
  order: an attribute whose current value is not \<open>_.isEqual\<close> to the new one is noted
  as changed, and the new value is assigned. The result is the names of the changed
  attributes, in order, and the attributes after the loop. Attributes that the hash
  does not have are not touched.
\<close>

fun set_attrs ::
  "(string \<times> 'n jsval) list \<Rightarrow> (string \<rightharpoonup> 'n jsval) \<Rightarrow> string list \<times> (string \<rightharpoonup> 'n jsval)" where
  "set_attrs [] current = ([], current)"
| "set_attrs ((attr, val) # attrs) current =
     (let changed = \<not> isEqual (model_get current attr) val;
          (changes, current') = set_attrs attrs (current(attr \<mapsto> val))
      in ((if changed then [attr] else []) @ changes, current'))"

section \<open>The view\<close>

subsection \<open>voucherTypes\<close>

text \<open>
  The array literal of the view's definition. \<open>gettext\<close> is the page's translation
  lookup, a parameter here.
\<close>

definition voucherTypes_literal :: "(string \<Rightarrow> string) \<Rightarrow> voucher_type list" where
  "voucherTypes_literal gettext =
     [ \<lparr>vt_value = ''Single use'',
        vt_label = gettext ''Can be used once by one customer''\<rparr>,
       \<lparr>vt_value = ''Once per customer'',
        vt_label = gettext ''Can be used once by multiple customers''\<rparr>,
       \<lparr>vt_value = ''Multi-use'',
        vt_label = gettext ''Can be used multiple times by multiple customers''\<rparr>,
       \<lparr>vt_value = ''Multi-use-per-Customer'',
        vt_label = gettext ''Can be used multiple times by one customer''\<rparr> ]"

subsection \<open>couponBindings\<close>

text \<open>\<open>select[name=enterprise_customer]\<close>, observing \<open>enterprise_customer\<close>.\<close>

definition enterprise_customer_onGet :: "'n jsval \<Rightarrow> error + 'n jsval" where
  "enterprise_customer_onGet val =
     (if isUndefined val \<or> isNull val then Inr (JStr '''') else get_prop val ''id'')"

definition enterprise_customer_onSet :: "'n view \<Rightarrow> 'n jsval \<Rightarrow> 'n jsval" where
  "enterprise_customer_onSet v val =
     JObj [(''id'', val), (''name'', JStr (customer_option_text v))]"

text \<open>\<open>select[name=enterprise_customer_catalog]\<close>, observing \<open>enterprise_customer_catalog\<close>.\<close>

definition enterprise_customer_catalog_onGet :: "'n jsval \<Rightarrow> 'n jsval" where
  "enterprise_customer_catalog_onGet val =
     (if isUndefined val \<or> isNull val then JStr '''' else val)"

definition enterprise_customer_catalog_onSet :: "'n jsval \<Rightarrow> 'n jsval" where
  "enterprise_customer_catalog_onSet val =
     (if \<not> isEmpty val \<and> isString val then val else JNull)"

text \<open>\<open>input[name=notify_email]\<close>, observing \<open>notify_email\<close>.\<close>

definition notify_email_onSet :: "'n jsval \<Rightarrow> 'n jsval" where
  "notify_email_onSet val = (if val = JStr '''' then JNull else val)"

subsection \<open>Operations\<close>

text \<open>
  \<open>toggleEnterpriseCatalogField(disable)\<close>: jQuery's \<open>attr('disabled', disable)\<close> on the
  catalog select sets the attribute for \<open>true\<close> and removes it for \<open>false\<close>.
\<close>

definition toggleEnterpriseCatalogField :: "bool \<Rightarrow> 'n view \<Rightarrow> 'n view" where
  "toggleEnterpriseCatalogField disable v = v\<lparr>catalog_disabled := disable\<rparr>"

text \<open>
  \<open>fetchEnterpriseCustomerCatalogs()\<close>. The \<open>id\<close> of the model's
  \<open>enterprise_customer\<close> is read first, and that read throws for \<open>undefined\<close> and
  \<open>null\<close>. With a non-empty id the call logs a line (the attribute is read from the
  model once more for it) and issues the fetch; the request holds the \<open>data\<close> option,
  whose \<open>enterprise_customer\<close> is the same \<open>id\<close> read again, and the customer its
  callbacks close over. Otherwise the catalog select is disabled.
\<close>

definition fetchEnterpriseCustomerCatalogs :: "'n view \<Rightarrow> error + 'n view" where
  "fetchEnterpriseCustomerCatalogs v =
     (let customer = model_get (model v) ''enterprise_customer'' in
      case get_prop customer ''id'' of
        Inl e \<Rightarrow> Inl e
      | Inr i \<Rightarrow>
          if \<not> isEmpty i then
            Inr (v\<lparr>console := console v @
                      [[Lit ''fetching catalogs for '',
                        Stringify (model_get (model v) ''enterprise_customer'')]],
                    fetches := fetches v @
                      [\<lparr>data = [(''enterprise_customer'', i)],
                        enterpriseCustomer = customer\<rparr>]\<rparr>)
          else Inr (toggleEnterpriseCatalogField True v))"

text \<open>
  The \<open>success\<close> and \<open>error\<close> callbacks of a request, run in the view's state at the
  time the fetch completes.
\<close>

definition fetch_success :: "'n request \<Rightarrow> 'n view \<Rightarrow> error + 'n view" where
  "fetch_success r v = Inr (toggleEnterpriseCatalogField False v)"

definition fetch_error :: "'n request \<Rightarrow> 'n view \<Rightarrow> error + 'n view" where
  "fetch_error r v =
     (case get_prop (enterpriseCustomer r) ''name'' of
        Inl e \<Rightarrow> Inl e
      | Inr n \<Rightarrow>
          Inr (toggleEnterpriseCatalogField True
                 (v\<lparr>console := console v @
                      [[Lit ''Failed to fetch catalogs for '', Concat n]]\<rparr>)))"

text \<open>\<open>getEditableAttributes()\<close>: a new array of the same names at every call.\<close>

definition getEditableAttributes :: "'n view \<Rightarrow> string list \<times> 'n view" where
  "getEditableAttributes v =
     ([ ''benefit_value'',
        ''category'',
        ''end_date'',
        ''enterprise_customer'',
        ''enterprise_customer_catalog'',
        ''notify_email'',
        ''invoice_discount_type'',
        ''invoice_discount_value'',
        ''invoice_number'',
        ''invoice_payment_date'',
        ''invoice_type'',
        ''max_uses'',
        ''note'',
        ''price'',
        ''start_date'',
        ''tax_deducted_source'',
        ''title'',
        ''email_domains'' ], v)"

text \<open>\<open>setupToggleListeners()\<close>: five subscriptions on the model.\<close>

definition setupToggleListeners :: "'n view \<Rightarrow> 'n view" where
  "setupToggleListeners v =
     v\<lparr>listeners := listeners v @
        [ (''change:coupon_type'', ToggleCouponTypeField),
          (''change:voucher_type'', ToggleVoucherTypeField),
          (''change:code'', ToggleCodeField),
          (''change:quantity'', ToggleQuantityField),
          (''change:enterprise_customer'', FetchEnterpriseCustomerCatalogs) ]\<rparr>"

text \<open>
  A subscribed callback, run with the view as \<open>this\<close>. The result is the exception the
  callback threw, if any, and the state it left. \<open>fetchEnterpriseCustomerCatalogs\<close> is
  the operation above, which throws before it has changed anything. The four toggle
  callbacks are methods of the base view, which is not part of this file: they are the
  parameter \<open>base\<close>.
\<close>

definition callback ::
  "(handler \<Rightarrow> 'n view \<Rightarrow> error option \<times> 'n view) \<Rightarrow> handler \<Rightarrow> 'n view
     \<Rightarrow> error option \<times> 'n view" where
  "callback base h v =
     (case h of
        FetchEnterpriseCustomerCatalogs \<Rightarrow>
          (case fetchEnterpriseCustomerCatalogs v of
             Inl e \<Rightarrow> (Some e, v)
           | Inr v' \<Rightarrow> (None, v'))
      | _ \<Rightarrow> base h v)"

text \<open>
  \<open>trigger(event)\<close> on the model: the callbacks subscribed to the event run in the
  order of their subscription; an exception of a callback is not caught, so it ends the
  dispatch.
\<close>

fun run_callbacks ::
  "(handler \<Rightarrow> 'n view \<Rightarrow> error option \<times> 'n view) \<Rightarrow> handler list \<Rightarrow> 'n view
     \<Rightarrow> error option \<times> 'n view" where
  "run_callbacks base [] v = (None, v)"
| "run_callbacks base (h # hs) v =
     (case callback base h v of
        (Some e, v') \<Rightarrow> (Some e, v')
      | (None, v') \<Rightarrow> run_callbacks base hs v')"

definition subscribed :: "string \<Rightarrow> 'n view \<Rightarrow> handler list" where
  "subscribed event v = map snd (filter (\<lambda>(e, h). e = event) (listeners v))"

text \<open>
  The second loop of \<open>model.set\<close>: for every changed attribute, in order, the event
  \<open>change:<attribute>\<close> is triggered.
\<close>

fun trigger_changes ::
  "(handler \<Rightarrow> 'n view \<Rightarrow> error option \<times> 'n view) \<Rightarrow> string list \<Rightarrow> 'n view
     \<Rightarrow> error option \<times> 'n view" where
  "trigger_changes base [] v = (None, v)"
| "trigger_changes base (attr # attrs) v =
     (case run_callbacks base (subscribed (''change:'' @ attr) v) v of
        (Some e, v') \<Rightarrow> (Some e, v')
      | (None, v') \<Rightarrow> trigger_changes base attrs v')"

text \<open>
  Backbone's \<open>model.set(attrs)\<close> with an attribute hash and no options (so nothing is
  validated): all attributes of the hash are assigned first, then the change events go
  to the subscribed callbacks. The event \<open>change\<close> that ends a \<open>set\<close> has no subscriber
  in this file and is left out, and so is what others than the view subscribe: the
  binding library's refresh of the bound controls is not modelled.
\<close>

definition model_set ::
  "(handler \<Rightarrow> 'n view \<Rightarrow> error option \<times> 'n view) \<Rightarrow> (string \<times> 'n jsval) list \<Rightarrow> 'n view
     \<Rightarrow> error option \<times> 'n view" where
  "model_set base attrs v =
     (let (changes, current) = set_attrs attrs (model v)
      in trigger_changes base changes (v\<lparr>model := current\<rparr>))"

text \<open>
  \<open>cancelButtonClicked()\<close>: \<open>this.model.set(this._initAttributes)\<close>. The result is how
  the call ends and the state it leaves: an exception of a change callback passes
  through \<open>set\<close> and through this function (\<open>Inl\<close>); otherwise the function, which has
  no \<open>return\<close>, evaluates to \<open>undefined\<close>.
\<close>

definition cancelButtonClicked ::
  "(handler \<Rightarrow> 'n view \<Rightarrow> error option \<times> 'n view) \<Rightarrow> 'n view
     \<Rightarrow> (error + 'n jsval) \<times> 'n view" where
  "cancelButtonClicked base v =
     (case model_set base (initAttributes v) v of
        (Some e, v') \<Rightarrow> (Inl e, v')
      | (None, v') \<Rightarrow> (Inr JUndefined, v'))"

subsection \<open>Writes through a binding\<close>

text \<open>
  A change of a bound control stores the value of the binding's \<open>onSet\<close> with
  \<open>model.set(observe, value, setOptions)\<close>. With \<open>validate: true\<close> Backbone first
  validates the attributes as they would be after the assignment and assigns nothing
  when they are invalid. The validation rules belong to the model, a parameter here
  (\<open>validate attrs\<close> holds when \<open>attrs\<close> are valid).
\<close>

definition binding_set ::
  "bool \<Rightarrow> ((string \<rightharpoonup> 'n jsval) \<Rightarrow> bool) \<Rightarrow> string \<Rightarrow> 'n jsval \<Rightarrow> 'n view \<Rightarrow> 'n view" where
  "binding_set validated validate observe x v =
     (let attrs = (model v)(observe \<mapsto> x) in
      if validated \<and> \<not> validate attrs then v else v\<lparr>model := attrs\<rparr>)"

definition write_enterprise_customer ::
  "((string \<rightharpoonup> 'n jsval) \<Rightarrow> bool) \<Rightarrow> 'n jsval \<Rightarrow> 'n view \<Rightarrow> 'n view" where
  "write_enterprise_customer validate val v =
     binding_set True validate ''enterprise_customer'' (enterprise_customer_onSet v val) v"

definition write_enterprise_customer_catalog ::
  "((string \<rightharpoonup> 'n jsval) \<Rightarrow> bool) \<Rightarrow> 'n jsval \<Rightarrow> 'n view \<Rightarrow> 'n view" where
  "write_enterprise_customer_catalog validate val v =
     binding_set True validate ''enterprise_customer_catalog''
       (enterprise_customer_catalog_onSet val) v"

definition write_notify_email ::
  "((string \<rightharpoonup> 'n jsval) \<Rightarrow> bool) \<Rightarrow> 'n jsval \<Rightarrow> 'n view \<Rightarrow> 'n view" where
  "write_notify_email validate val v =
     binding_set False validate ''notify_email'' (notify_email_onSet val) v"

subsection \<open>Sequences of calls\<close>

text \<open>
  What can happen to a view: a call of one of its operations, the completion of a
  fetch, a write through one of its bindings. The change callbacks that a write sets
  off are calls of their own in such a sequence. The callbacks of the base view are
  not part of this file and are left out of the sequences: \<open>no_base\<close> stands for them.
  An exception ends a call, and the page goes on with the state the call had reached
  (every operation but \<open>cancelButtonClicked\<close> throws before it has changed anything).
\<close>

datatype 'n call =
    Call_fetchEnterpriseCustomerCatalogs
  | Call_toggleEnterpriseCatalogField bool
  | Call_getEditableAttributes
  | Call_setupToggleListeners
  | Call_cancelButtonClicked
  | Fetch_succeeds "'n request"
  | Fetch_fails "'n request"
  | Write_enterprise_customer "'n jsval"
  | Write_enterprise_customer_catalog "'n jsval"
  | Write_notify_email "'n jsval"

definition no_base :: "handler \<Rightarrow> 'n view \<Rightarrow> error option \<times> 'n view" where
  "no_base h v = (None, v)"

definition after :: "'n view \<Rightarrow> error + 'n view \<Rightarrow> 'n view" where
  "after v r = (case r of Inl e \<Rightarrow> v | Inr v' \<Rightarrow> v')"

fun run :: "((string \<rightharpoonup> 'n jsval) \<Rightarrow> bool) \<Rightarrow> 'n call \<Rightarrow> 'n view \<Rightarrow> 'n view" where
  "run validate Call_fetchEnterpriseCustomerCatalogs v =
     after v (fetchEnterpriseCustomerCatalogs v)"
| "run validate (Call_toggleEnterpriseCatalogField disable) v =
     toggleEnterpriseCatalogField disable v"
| "run validate Call_getEditableAttributes v = snd (getEditableAttributes v)"
| "run validate Call_setupToggleListeners v = setupToggleListeners v"
| "run validate Call_cancelButtonClicked v = snd (cancelButtonClicked no_base v)"
| "run validate (Fetch_succeeds r) v = after v (fetch_success r v)"
| "run validate (Fetch_fails r) v = after v (fetch_error r v)"
| "run validate (Write_enterprise_customer val) v = write_enterprise_customer validate val v"
| "run validate (Write_enterprise_customer_catalog val) v =
     write_enterprise_customer_catalog validate val v"
| "run validate (Write_notify_email val) v = write_notify_email validate val v"

fun run_all :: "((string \<rightharpoonup> 'n jsval) \<Rightarrow> bool) \<Rightarrow> 'n call list \<Rightarrow> 'n view \<Rightarrow> 'n view" where
  "run_all validate [] v = v"
| "run_all validate (c # cs) v = run_all validate cs (run validate c v)"

subsection \<open>States used to evaluate the operations\<close>

text \<open>
  A coupon under edit: the customer \<open>Acme\<close> is selected, the title was changed from
  \<open>Spring\<close> to \<open>Summer\<close>, and a notification address was entered that the snapshot
  does not have.
\<close>

definition edited_view :: "int view" where
  "edited_view =
     \<lparr>model = [''title'' \<mapsto> JStr ''Summer'',
               ''enterprise_customer'' \<mapsto> JObj [(''id'', JStr ''c7''), (''name'', JStr ''Acme'')],
               ''notify_email'' \<mapsto> JStr ''a@b.c''],
      initAttributes = [(''title'', JStr ''Spring''),
               (''enterprise_customer'', JObj [(''id'', JStr ''c7''), (''name'', JStr ''Acme'')])],
      voucherTypes = voucherTypes_literal (\<lambda>s. s),
      catalog_disabled = True,
      customer_option_text = ''Acme'',
      fetches = [],
      console = [],
      listeners = []\<rparr>"

text \<open>The same coupon with no customer selected: the select's default option.\<close>

definition unselected_view :: "int view" where
  "unselected_view =
     edited_view\<lparr>model := (model edited_view)
        (''enterprise_customer'' \<mapsto> JObj [(''id'', JStr ''''), (''name'', JStr '''')]),
        catalog_disabled := False\<rparr>"

text \<open>A coupon whose \<open>enterprise_customer\<close> is \<open>null\<close>.\<close>

definition null_customer_view :: "int view" where
  "null_customer_view =
     edited_view\<lparr>model := (model edited_view)(''enterprise_customer'' \<mapsto> JNull)\<rparr>"



section \<open>Properties\<close>

subsection \<open>Helper facts\<close>

lemma get_prop_defined:
  "x \<noteq> JUndefined \<Longrightarrow> x \<noteq> JNull \<Longrightarrow> \<exists>y. get_prop x p = Inr y"
  by (cases x) simp_all

lemma get_prop_Inr_not_nullish:
  "get_prop x p = Inr y \<Longrightarrow> x \<noteq> JUndefined \<and> x \<noteq> JNull"
  by (cases x) simp_all

lemma fetch_result:
  assumes "get_prop (model_get (model v) ''enterprise_customer'') ''id'' = Inr i"
  shows "fetchEnterpriseCustomerCatalogs v =
     Inr (if \<not> isEmpty i
          then v\<lparr>console := console v @
                   [[Lit ''fetching catalogs for '',
                     Stringify (model_get (model v) ''enterprise_customer'')]],
                 fetches := fetches v @
                   [\<lparr>data = [(''enterprise_customer'', i)],
                     enterpriseCustomer = model_get (model v) ''enterprise_customer''\<rparr>]\<rparr>
          else v\<lparr>catalog_disabled := True\<rparr>)"
  using assms
  by (simp add: fetchEnterpriseCustomerCatalogs_def Let_def toggleEnterpriseCatalogField_def)

lemma issued_request_customer:
  assumes "fetchEnterpriseCustomerCatalogs v = Inr v'" and "fetches v' = fetches v @ [r]"
  shows "enterpriseCustomer r \<noteq> JUndefined \<and> enterpriseCustomer r \<noteq> JNull"
proof -
  obtain i where i: "get_prop (model_get (model v) ''enterprise_customer'') ''id'' = Inr i"
    using assms(1)
    by (cases "get_prop (model_get (model v) ''enterprise_customer'') ''id''")
       (simp_all add: fetchEnterpriseCustomerCatalogs_def Let_def)
  have "enterpriseCustomer r = model_get (model v) ''enterprise_customer''"
    using assms fetch_result [OF i] by (cases "isEmpty i") auto
  with get_prop_Inr_not_nullish [OF i] show ?thesis by simp
qed





lemma fetch_voucherTypes:
  "fetchEnterpriseCustomerCatalogs w = Inr w' \<Longrightarrow> voucherTypes w' = voucherTypes w"
  by (auto simp: fetchEnterpriseCustomerCatalogs_def Let_def toggleEnterpriseCatalogField_def
      split: sum.splits if_splits)

lemma callback_frame:
  assumes "\<And>h w. f (snd (base h w)) = f w"
      and "\<And>w w'. fetchEnterpriseCustomerCatalogs w = Inr w' \<Longrightarrow> f w' = f w"
  shows "f (snd (callback base h w)) = f w"
  using assms by (cases h) (auto simp: callback_def split: sum.splits)

lemma run_callbacks_frame:
  assumes "\<And>h w. f (snd (base h w)) = f w"
      and "\<And>w w'. fetchEnterpriseCustomerCatalogs w = Inr w' \<Longrightarrow> f w' = f w"
  shows "f (snd (run_callbacks base hs w)) = f w"
proof (induction hs arbitrary: w)
  case Nil
  then show ?case by simp
next
  case (Cons h hs)
  obtain r w' where c: "callback base h w = (r, w')" by (cases "callback base h w")
  have "f (snd (callback base h w)) = f w"
    by (rule callback_frame [where f = f and base = base, OF assms])
  with c have "f w' = f w" by simp
  with Cons.IH [of w'] c show ?case by (cases r) simp_all
qed

lemma trigger_changes_frame:
  assumes "\<And>h w. f (snd (base h w)) = f w"
      and "\<And>w w'. fetchEnterpriseCustomerCatalogs w = Inr w' \<Longrightarrow> f w' = f w"
  shows "f (snd (trigger_changes base attrs w)) = f w"
proof (induction attrs arbitrary: w)
  case Nil
  then show ?case by simp
next
  case (Cons attr attrs)
  obtain r w' where c: "run_callbacks base (subscribed (''change:'' @ attr) w) w = (r, w')"
    by (cases "run_callbacks base (subscribed (''change:'' @ attr) w) w")
  have "f (snd (run_callbacks base (subscribed (''change:'' @ attr) w) w)) = f w"
    by (rule run_callbacks_frame [where f = f and base = base, OF assms])
  with c have "f w' = f w" by simp
  with Cons.IH [of w'] c show ?case by (cases r) simp_all
qed

lemma cancelButtonClicked_snd:
  "snd (cancelButtonClicked base v) =
     snd (trigger_changes base (fst (set_attrs (initAttributes v) (model v)))
            (v\<lparr>model := snd (set_attrs (initAttributes v) (model v))\<rparr>))"
  by (simp add: cancelButtonClicked_def model_set_def case_prod_beta split: option.splits)



lemma cancelButtonClicked_voucherTypes:
  "voucherTypes (snd (cancelButtonClicked no_base v)) = voucherTypes v"
  unfolding cancelButtonClicked_snd
  by (subst trigger_changes_frame [where f = voucherTypes and base = no_base,
        OF _ fetch_voucherTypes])
     (simp_all add: no_base_def)




lemma run_voucherTypes: "voucherTypes (run validate c v) = voucherTypes v"
proof (cases c)
  case Call_fetchEnterpriseCustomerCatalogs
  then show ?thesis
    by (simp add: after_def fetch_voucherTypes split: sum.splits)
next
  case Call_cancelButtonClicked
  then show ?thesis
    by (simp add: cancelButtonClicked_voucherTypes)
next
  case (Fetch_fails r)
  then show ?thesis
    by (simp add: after_def fetch_error_def toggleEnterpriseCatalogField_def split: sum.splits)
qed (simp_all add: after_def toggleEnterpriseCatalogField_def getEditableAttributes_def
      setupToggleListeners_def fetch_success_def
      write_enterprise_customer_def write_enterprise_customer_catalog_def
      write_notify_email_def binding_set_def Let_def)

subsection \<open>fetchEnterpriseCustomerCatalogs\<close>

text \<open>
  C1. Let \<open>i\<close> be the \<open>id\<close> of the model's \<open>enterprise_customer\<close>. The call returns, and
  it issues a fetch exactly when \<open>i\<close> is not empty (\<open>_.isEmpty\<close>; for a string: when
  it is not \<open>''\<close>). The fetch issued is one, with \<open>data\<close> equal to
  \<open>{enterprise_customer: i}\<close>, and it leaves the catalog select as it was. With an
  empty \<open>i\<close> no fetch is issued and the catalog select is disabled when the call
  returns.
\<close>

theorem fetch_issued_iff_id_nonempty:
  assumes "get_prop (model_get (model v) ''enterprise_customer'') ''id'' = Inr i"
  shows "\<exists>v'. fetchEnterpriseCustomerCatalogs v = Inr v' \<and>
           ((fetches v' \<noteq> fetches v) = (\<not> isEmpty i)) \<and>
           (if \<not> isEmpty i
            then fetches v' = fetches v @
                   [\<lparr>data = [(''enterprise_customer'', i)],
                     enterpriseCustomer = model_get (model v) ''enterprise_customer''\<rparr>]
                 \<and> catalog_disabled v' = catalog_disabled v
            else fetches v' = fetches v \<and> catalog_disabled v')"
  using fetch_result [OF assms] by (cases "isEmpty i") simp_all

text \<open>
  Evaluated: with the customer \<open>c7\<close> selected one fetch filtered by \<open>c7\<close> is issued;
  with the default option (id \<open>''\<close>) none is, and the select ends disabled.
\<close>

theorem fetch_issued_iff_id_nonempty_witness:
  "get_prop (model_get (model edited_view) ''enterprise_customer'') ''id'' = Inr (JStr ''c7'')
   \<and> (\<exists>v'. fetchEnterpriseCustomerCatalogs edited_view = Inr v' \<and>
         fetches v' = [\<lparr>data = [(''enterprise_customer'', JStr ''c7'')],
                         enterpriseCustomer =
                           JObj [(''id'', JStr ''c7''), (''name'', JStr ''Acme'')]\<rparr>])
   \<and> get_prop (model_get (model unselected_view) ''enterprise_customer'') ''id'' = Inr (JStr '''')
   \<and> (\<exists>v'. fetchEnterpriseCustomerCatalogs unselected_view = Inr v' \<and>
         fetches v' = [] \<and> catalog_disabled v')"
proof -
  have a: "get_prop (model_get (model edited_view) ''enterprise_customer'') ''id''
             = Inr (JStr ''c7'')"
    by (simp add: edited_view_def model_get_def)
  have b: "get_prop (model_get (model unselected_view) ''enterprise_customer'') ''id''
             = Inr (JStr '''')"
    by (simp add: unselected_view_def edited_view_def model_get_def)
  have c: "model_get (model edited_view) ''enterprise_customer''
             = JObj [(''id'', JStr ''c7''), (''name'', JStr ''Acme'')]"
          "fetches edited_view = []" "fetches unselected_view = []"
    by (simp_all add: unselected_view_def edited_view_def model_get_def)
  from fetch_issued_iff_id_nonempty [OF a]
  have "\<exists>v'. fetchEnterpriseCustomerCatalogs edited_view = Inr v' \<and>
         fetches v' = [\<lparr>data = [(''enterprise_customer'', JStr ''c7'')],
                         enterpriseCustomer =
                           JObj [(''id'', JStr ''c7''), (''name'', JStr ''Acme'')]\<rparr>]"
    by (auto simp: c)
  moreover from fetch_issued_iff_id_nonempty [OF b]
  have "\<exists>v'. fetchEnterpriseCustomerCatalogs unselected_view = Inr v' \<and>
         fetches v' = [] \<and> catalog_disabled v'"
    by (auto simp: c)
  ultimately show ?thesis using a b by simp
qed

text \<open>
  C2. Let \<open>r\<close> be a fetch that \<open>fetchEnterpriseCustomerCatalogs\<close> started. In every
  state \<open>w\<close> of the view at the time the fetch completes, whatever the catalog select
  was: the \<open>success\<close> callback returns and leaves the select enabled, changing nothing
  else; the \<open>error\<close> callback returns, has written one line to the console and leaves
  the select disabled. Neither callback throws.
\<close>

theorem fetch_completion_sets_control:
  assumes "fetchEnterpriseCustomerCatalogs v = Inr v'" and "fetches v' = fetches v @ [r]"
  shows "fetch_success r w = Inr (w\<lparr>catalog_disabled := False\<rparr>)
         \<and> (\<exists>n. get_prop (enterpriseCustomer r) ''name'' = Inr n
               \<and> fetch_error r w =
                   Inr (w\<lparr>console := console w @
                            [[Lit ''Failed to fetch catalogs for '', Concat n]],
                          catalog_disabled := True\<rparr>))"
proof -
  from issued_request_customer [OF assms]
  obtain n where n: "get_prop (enterpriseCustomer r) ''name'' = Inr n"
    using get_prop_defined by blast
  then show ?thesis
    by (simp add: fetch_success_def fetch_error_def toggleEnterpriseCatalogField_def)
qed

text \<open>
  Evaluated on the fetch started for the customer \<open>c7\<close>: completing in a state whose
  select is disabled, success enables it; completing in a state whose select is
  enabled, the error disables it and logs the customer's name.
\<close>

theorem fetch_completion_sets_control_witness:
  "fetchEnterpriseCustomerCatalogs edited_view =
     Inr (edited_view\<lparr>console :=
            [[Lit ''fetching catalogs for '',
              Stringify (JObj [(''id'', JStr ''c7''), (''name'', JStr ''Acme'')])]],
          fetches :=
            [\<lparr>data = [(''enterprise_customer'', JStr ''c7'')],
              enterpriseCustomer = JObj [(''id'', JStr ''c7''), (''name'', JStr ''Acme'')]\<rparr>]\<rparr>)
   \<and> catalog_disabled edited_view
   \<and> fetch_success
        \<lparr>data = [(''enterprise_customer'', JStr ''c7'')],
         enterpriseCustomer = JObj [(''id'', JStr ''c7''), (''name'', JStr ''Acme'')]\<rparr>
        edited_view = Inr (edited_view\<lparr>catalog_disabled := False\<rparr>)
   \<and> \<not> catalog_disabled unselected_view
   \<and> fetch_error
        \<lparr>data = [(''enterprise_customer'', JStr ''c7'')],
         enterpriseCustomer = JObj [(''id'', JStr ''c7''), (''name'', JStr ''Acme'')]\<rparr>
        unselected_view =
       Inr (unselected_view\<lparr>console :=
              [[Lit ''Failed to fetch catalogs for '', Concat (JStr ''Acme'')]],
            catalog_disabled := True\<rparr>)"
proof -
  let ?r = "\<lparr>data = [(''enterprise_customer'', JStr ''c7'')],
             enterpriseCustomer = JObj [(''id'', JStr ''c7''), (''name'', JStr ''Acme'')]\<rparr>
             :: int request"
  let ?v' = "edited_view\<lparr>console :=
            [[Lit ''fetching catalogs for '',
              Stringify (JObj [(''id'', JStr ''c7''), (''name'', JStr ''Acme'')])]],
          fetches := [?r]\<rparr>"
  have a: "fetchEnterpriseCustomerCatalogs edited_view = Inr ?v'"
    by (simp add: fetchEnterpriseCustomerCatalogs_def Let_def edited_view_def model_get_def)
  have b: "fetches ?v' = fetches edited_view @ [?r]"
    by (simp add: edited_view_def)
  from fetch_completion_sets_control [OF a b, of edited_view]
       fetch_completion_sets_control [OF a b, of unselected_view] a
  show ?thesis
    by (simp add: unselected_view_def edited_view_def)
qed

text \<open>
  C9. The \<open>id\<close> of the model's \<open>enterprise_customer\<close> is read before anything else:
  when that attribute is \<open>undefined\<close> (also: absent) or \<open>null\<close> the call throws a
  TypeError, and nothing is disabled; for every other value of the attribute the call
  returns.
\<close>

theorem fetch_throws_iff_customer_nullish:
  "(model_get (model v) ''enterprise_customer'' = JUndefined
      \<or> model_get (model v) ''enterprise_customer'' = JNull
     \<longrightarrow> fetchEnterpriseCustomerCatalogs v = Inl TypeError)
   \<and> (model_get (model v) ''enterprise_customer'' \<noteq> JUndefined
      \<and> model_get (model v) ''enterprise_customer'' \<noteq> JNull
     \<longrightarrow> (\<exists>v'. fetchEnterpriseCustomerCatalogs v = Inr v'))"
proof (intro conjI impI)
  assume "model_get (model v) ''enterprise_customer'' = JUndefined
      \<or> model_get (model v) ''enterprise_customer'' = JNull"
  then show "fetchEnterpriseCustomerCatalogs v = Inl TypeError"
    by (auto simp: fetchEnterpriseCustomerCatalogs_def Let_def)
next
  assume "model_get (model v) ''enterprise_customer'' \<noteq> JUndefined
      \<and> model_get (model v) ''enterprise_customer'' \<noteq> JNull"
  then obtain i where "get_prop (model_get (model v) ''enterprise_customer'') ''id'' = Inr i"
    using get_prop_defined by blast
  from fetch_result [OF this] show "\<exists>v'. fetchEnterpriseCustomerCatalogs v = Inr v'"
    by blast
qed

text \<open>
  Evaluated: a model whose \<open>enterprise_customer\<close> is \<open>null\<close>, and a model that has no
  such attribute, make the call throw; the emptiness test alone would have taken
  \<open>null\<close> to the disabling branch.
\<close>

theorem fetch_throws_iff_customer_nullish_witness:
  "model_get (model null_customer_view) ''enterprise_customer'' = JNull
   \<and> fetchEnterpriseCustomerCatalogs null_customer_view = Inl TypeError
   \<and> isEmpty (JNull :: int jsval)
   \<and> model_get (model (edited_view\<lparr>model := Map.empty\<rparr>)) ''enterprise_customer'' = JUndefined
   \<and> fetchEnterpriseCustomerCatalogs (edited_view\<lparr>model := Map.empty\<rparr>) = Inl TypeError"
  using fetch_throws_iff_customer_nullish [of null_customer_view]
        fetch_throws_iff_customer_nullish [of "edited_view\<lparr>model := Map.empty\<rparr>"]
  by (simp add: null_customer_view_def edited_view_def model_get_def)

subsection \<open>cancelButtonClicked\<close>




subsection \<open>couponBindings\<close>

text \<open>
  C4. The \<open>onSet\<close> of the \<open>enterprise_customer_catalog\<close> binding gives \<open>null\<close> for the
  empty string and for every value that is not a string, gives every non-empty string
  back unchanged, and applied twice gives what it gives applied once.
\<close>

theorem enterprise_customer_catalog_onSet_cases:
  fixes val :: "'n jsval"
  shows "enterprise_customer_catalog_onSet (JStr '''' :: 'n jsval) = JNull
   \<and> (\<not> isString val \<longrightarrow> enterprise_customer_catalog_onSet val = JNull)
   \<and> (s \<noteq> '''' \<longrightarrow> enterprise_customer_catalog_onSet (JStr s :: 'n jsval) = JStr s)
   \<and> enterprise_customer_catalog_onSet (enterprise_customer_catalog_onSet val)
       = enterprise_customer_catalog_onSet val"
  by (cases val) (simp_all add: enterprise_customer_catalog_onSet_def)

text \<open>Evaluated on a number, an object and a catalog's uuid.\<close>

theorem enterprise_customer_catalog_onSet_cases_witness:
  "\<not> isString (JNum (3::int))
   \<and> enterprise_customer_catalog_onSet (JNum (3::int)) = JNull
   \<and> \<not> isString (JObj [(''uuid'', JStr ''u1'')] :: int jsval)
   \<and> enterprise_customer_catalog_onSet (JObj [(''uuid'', JStr ''u1'')] :: int jsval) = JNull
   \<and> ''u1'' \<noteq> ''''
   \<and> enterprise_customer_catalog_onSet (JStr ''u1'' :: int jsval) = JStr ''u1''"
  using enterprise_customer_catalog_onSet_cases [of "JNum (3::int)" "''u1''"]
        enterprise_customer_catalog_onSet_cases
          [of "JObj [(''uuid'', JStr ''u1'')] :: int jsval" "''u1''"]
  by simp

text \<open>
  C6. The \<open>onSet\<close> of the \<open>notify_email\<close> binding gives \<open>null\<close> for the empty string
  and gives every other string back unchanged.
\<close>

theorem notify_email_onSet_cases:
  "notify_email_onSet (JStr '''' :: 'n jsval) = JNull
   \<and> (s \<noteq> '''' \<longrightarrow> notify_email_onSet (JStr s :: 'n jsval) = JStr s)"
  by (simp add: notify_email_onSet_def)

theorem notify_email_onSet_cases_witness:
  "''a@b.c'' \<noteq> '''' \<and> notify_email_onSet (JStr ''a@b.c'' :: int jsval) = JStr ''a@b.c''"
  using notify_email_onSet_cases [of "''a@b.c''", where ?'n = int] by simp

text \<open>
  C7. The \<open>onGet\<close> of the \<open>enterprise_customer\<close> binding gives the empty string for
  \<open>undefined\<close> and for \<open>null\<close>, and for every other value the value's \<open>id\<close>, a read
  that does not throw. Its \<open>onSet\<close> gives the object whose \<open>id\<close> is the selected value
  and whose \<open>name\<close> is the text of the selected option.
\<close>

theorem enterprise_customer_binding_transforms:
  fixes val :: "'n jsval" and v :: "'n view"
  shows "enterprise_customer_onGet (JUndefined :: 'n jsval) = Inr (JStr '''')
   \<and> enterprise_customer_onGet (JNull :: 'n jsval) = Inr (JStr '''')
   \<and> (val \<noteq> JUndefined \<and> val \<noteq> JNull
        \<longrightarrow> enterprise_customer_onGet val = get_prop val ''id''
            \<and> (\<exists>x. get_prop val ''id'' = Inr x))
   \<and> enterprise_customer_onSet v selected
       = JObj [(''id'', selected), (''name'', JStr (customer_option_text v))]"
proof -
  have "enterprise_customer_onGet val = get_prop val ''id''"
    if "val \<noteq> JUndefined" "val \<noteq> JNull"
    using that by (cases val) (simp_all add: enterprise_customer_onGet_def)
  then show ?thesis
    using get_prop_defined [of val "''id''"]
    by (simp add: enterprise_customer_onGet_def enterprise_customer_onSet_def)
qed

text \<open>Evaluated: the customer \<open>c7\<close> is shown as \<open>c7\<close>; selecting \<open>c9\<close> stores \<open>c9\<close>
  with the option's text.\<close>

theorem enterprise_customer_binding_transforms_witness:
  "enterprise_customer_onGet (JObj [(''id'', JStr ''c7''), (''name'', JStr ''Acme'')] :: int jsval)
     = Inr (JStr ''c7'')
   \<and> enterprise_customer_onSet edited_view (JStr ''c9'')
     = JObj [(''id'', JStr ''c9''), (''name'', JStr ''Acme'')]"
  using enterprise_customer_binding_transforms
          [of "JObj [(''id'', JStr ''c7''), (''name'', JStr ''Acme'')] :: int jsval"
              edited_view "JStr ''c9''"]
  by (simp add: edited_view_def)

text \<open>
  C10. The \<open>onSet\<close> of the \<open>enterprise_customer\<close> binding gives an object for every
  value, the empty string included, never \<open>null\<close> or \<open>undefined\<close>, where the
  \<open>onSet\<close> of the catalog binding gives \<open>null\<close> for the empty string. So after a write
  through the binding the model's \<open>enterprise_customer\<close> is that object, or, the
  validation having refused the write, what it was before.
\<close>

theorem enterprise_customer_onSet_always_object:
  fixes v :: "'n view"
  shows "enterprise_customer_onSet v val
     = JObj [(''id'', val), (''name'', JStr (customer_option_text v))]
   \<and> enterprise_customer_onSet v val \<noteq> JNull
   \<and> enterprise_customer_onSet v val \<noteq> JUndefined
   \<and> enterprise_customer_onSet v (JStr '''')
     = JObj [(''id'', JStr ''''), (''name'', JStr (customer_option_text v))]
   \<and> enterprise_customer_catalog_onSet (JStr '''' :: 'n jsval) = JNull
   \<and> model (write_enterprise_customer validate val v) ''enterprise_customer''
       \<in> {model v ''enterprise_customer'',
          Some (JObj [(''id'', val), (''name'', JStr (customer_option_text v))])}"
  by (simp add: enterprise_customer_onSet_def enterprise_customer_catalog_onSet_def
      write_enterprise_customer_def binding_set_def Let_def)

subsection \<open>getEditableAttributes and voucherTypes\<close>

text \<open>
  C5. \<open>getEditableAttributes()\<close> leaves the view's state as it is, and in every state
  returns the same list of 18 names.
\<close>

theorem getEditableAttributes_fixed:
  "snd (getEditableAttributes v) = v
   \<and> length (fst (getEditableAttributes v)) = 18
   \<and> distinct (fst (getEditableAttributes v))
   \<and> fst (getEditableAttributes v) = fst (getEditableAttributes w)
   \<and> fst (getEditableAttributes v) =
       [''benefit_value'', ''category'', ''end_date'', ''enterprise_customer'',
        ''enterprise_customer_catalog'', ''notify_email'', ''invoice_discount_type'',
        ''invoice_discount_value'', ''invoice_number'', ''invoice_payment_date'',
        ''invoice_type'', ''max_uses'', ''note'', ''price'', ''start_date'',
        ''tax_deducted_source'', ''title'', ''email_domains'']"
  by (simp add: getEditableAttributes_def)

text \<open>
  C8. The \<open>voucherTypes\<close> of the view's definition are four entries, with these values
  in this order; and whatever is done to a view (calls of its operations, completions
  of fetches, writes through its bindings, in any number and order) its
  \<open>voucherTypes\<close> are afterwards what they were.
\<close>

theorem voucherTypes_static:
  "length (voucherTypes_literal gettext) = 4
   \<and> map vt_value (voucherTypes_literal gettext)
       = [''Single use'', ''Once per customer'', ''Multi-use'', ''Multi-use-per-Customer'']
   \<and> voucherTypes (run_all validate calls v) = voucherTypes v"
proof -
  have "voucherTypes (run_all validate calls v) = voucherTypes v"
    by (induction calls arbitrary: v) (simp_all add: run_voucherTypes)
  then show ?thesis by (simp add: voucherTypes_literal_def)
qed

end
